theory Spec2Isabelle
  imports Complex_Main "HOL-Library.Log_Nat"
begin

section \<open>The pension loss calculator of streamlit_app.py\<close>

text \<open>
  The calculator is one Streamlit script: the sidebar fixes the tax configuration, the
  script then runs either the Simple or the Complex method on the current widget values.
  Each run is modelled as a function from a record of widget values to the values the
  script binds.

  Numbers: a Python \<open>int\<close> is an \<open>int\<close>. A Python \<open>float\<close> is modelled twice. In
  \<open>simple_method\<close> and \<open>complex_method\<close> it is a \<open>real\<close> and arithmetic is exact:
  binary rounding, overflow, infinities and NaN are outside that model. In
  \<open>complex_method_f64\<close> it is the real value of a double and every operation rounds to the
  nearest double; that model decides the properties on which rounding bears. An exception
  is a value \<open>Inl e\<close> of the result type.
\<close>

subsection \<open>Exceptions and arithmetic\<close>

datatype py_error = ZeroDivisionError | IndexError | KeyError | AttributeError | TypeError

text \<open>Python's \<open>a / b\<close> on floats: raises when the divisor is zero.\<close>

definition truediv :: "real \<Rightarrow> real \<Rightarrow> py_error + real" where
  "truediv a b = (if b = 0 then Inl ZeroDivisionError else Inr (a / b))"

text \<open>Sequencing of statements that may raise: the first exception ends the run.\<close>

definition bind_err :: "py_error + 'a \<Rightarrow> ('a \<Rightarrow> py_error + 'b) \<Rightarrow> py_error + 'b" where
  "bind_err m f = (case m of Inl e \<Rightarrow> Inl e | Inr x \<Rightarrow> f x)"

subsection \<open>Sidebar configuration\<close>

text \<open>
  \<open>tax_rate = st.sidebar.selectbox("Marginal Tax Rate", [0.20, 0.40, 0.45], index=1, ...)\<close>:
  a select box returns the option at the chosen position; the operator cannot enter any
  other value.
\<close>

definition tax_rate_options :: "real list" where
  "tax_rate_options = [0.20, 0.40, 0.45]"

definition selectbox :: "'a list \<Rightarrow> nat \<Rightarrow> py_error + 'a" where
  "selectbox options idx = (if idx < length options then Inr (options ! idx) else Inl IndexError)"

record sidebar =
  tax_rate :: real
  tax_free_remaining :: real

subsection \<open>Simple method\<close>

record simple_inputs = sidebar +
  gross_salary :: real
  contrib :: real
  period :: real

record award =
  net_total :: real
  taxable :: real
  gross_total :: real

record simple_result = award +
  annual_loss :: real

definition simple_method :: "simple_inputs \<Rightarrow> py_error + simple_result" where
  "simple_method i =
     (let annual_loss = gross_salary i * (contrib i / 100);
          net_total = annual_loss * period i;
          taxable = max 0 (net_total - tax_free_remaining i)
      in case truediv taxable (1 - tax_rate i) of
           Inl e \<Rightarrow> Inl e
         | Inr q \<Rightarrow>
             Inr \<lparr>net_total = net_total, taxable = taxable,
                  gross_total = min net_total (tax_free_remaining i) + q,
                  annual_loss = annual_loss\<rparr>)"

subsection \<open>Ogden table (demo dataset)\<close>

text \<open>
  The data frame of \<open>get_ogden_subset\<close>, column by column. \<open>applymap\<close> applies
  \<open>max(0.0, x)\<close> to every cell, the age column included.
\<close>

record ogden_df =
  age_at_trial :: "int list"
  retire_at_60 :: "real list"
  retire_at_65 :: "real list"
  retire_at_68 :: "real list"

definition applymap_floor :: "ogden_df \<Rightarrow> ogden_df" where
  "applymap_floor df =
     \<lparr>age_at_trial = map (max 0) (age_at_trial df),
      retire_at_60 = map (max 0) (retire_at_60 df),
      retire_at_65 = map (max 0) (retire_at_65 df),
      retire_at_68 = map (max 0) (retire_at_68 df)\<rparr>"

definition get_ogden_subset :: "string \<Rightarrow> ogden_df \<times> string" where
  "get_ogden_subset gender =
     (let ages = [40..60] in
      if gender = ''Male'' then
        (applymap_floor
           \<lparr>age_at_trial = ages,
            retire_at_60 = map (\<lambda>x. 24.50 - 0.95 * real_of_int (x - 40)) ages,
            retire_at_65 = map (\<lambda>x. 22.00 - 0.6 * real_of_int (x - 40)) ages,
            retire_at_68 = map (\<lambda>x. 19.50 - 0.5 * real_of_int (x - 40)) ages\<rparr>,
         ''Table 28 (Males)'')
      else
        (applymap_floor
           \<lparr>age_at_trial = ages,
            retire_at_60 = map (\<lambda>x. 26.00 - 0.90 * real_of_int (x - 40)) ages,
            retire_at_65 = map (\<lambda>x. 23.50 - 0.55 * real_of_int (x - 40)) ages,
            retire_at_68 = map (\<lambda>x. 21.00 - 0.5 * real_of_int (x - 40)) ages\<rparr>,
         ''Table 29 (Females)''))"

text \<open>
  \<open>target_col = f"Retire at {ret_age}"\<close>: the frame has such a column for the
  retirement ages 60, 65 and 68; selecting any other column name raises \<open>KeyError\<close>.
\<close>

definition target_col :: "ogden_df \<Rightarrow> int \<Rightarrow> py_error + real list" where
  "target_col df ret_age =
     (if ret_age = 60 then Inr (retire_at_60 df)
      else if ret_age = 65 then Inr (retire_at_65 df)
      else if ret_age = 68 then Inr (retire_at_68 df)
      else Inl KeyError)"

text \<open>
  \<open>df_ogden.loc[df_ogden['Age at Trial'] == claimant_age, target_col].values[0]\<close>:
  the cells of the column in the rows whose age equals the claimant's, then the first of
  them; \<open>[0]\<close> on an empty array raises \<open>IndexError\<close>.
\<close>

definition loc_first :: "ogden_df \<Rightarrow> int \<Rightarrow> int \<Rightarrow> py_error + real" where
  "loc_first df claimant_age ret_age =
     (case target_col df ret_age of
        Inl e \<Rightarrow> Inl e
      | Inr col \<Rightarrow>
          (case map snd (filter (\<lambda>(a, v). a = claimant_age) (zip (age_at_trial df) col)) of
             [] \<Rightarrow> Inl IndexError
           | v # _ \<Rightarrow> Inr v))"

text \<open>
  The lookup logic: \<open>try: ... found_in_table = True  except IndexError: auto_multiplier = 0.0;
  found_in_table = False\<close>. Only \<open>IndexError\<close> is caught.
\<close>

definition lookup_logic :: "ogden_df \<Rightarrow> int \<Rightarrow> int \<Rightarrow> py_error + (real \<times> bool)" where
  "lookup_logic df claimant_age ret_age =
     (case loc_first df claimant_age ret_age of
        Inr v \<Rightarrow> Inr (v, True)
      | Inl IndexError \<Rightarrow> Inr (0, False)
      | Inl e \<Rightarrow> Inl e)"

text \<open>
  \<open>st.number_input(label, value=default)\<close>: the operator's entry, or the default when
  the field is left alone.
\<close>

definition number_input :: "real \<Rightarrow> real option \<Rightarrow> real" where
  "number_input dflt entry = (case entry of None \<Rightarrow> dflt | Some v \<Rightarrow> v)"

subsection \<open>Complex method\<close>

record complex_inputs = sidebar +
  old_pension :: real
  accrued_pension :: real
  new_pension :: real
  gender :: string
  claimant_age :: int
  ret_age :: int
  multiplier_entry :: "real option"
  withdrawal :: int
  old_lump :: real
  new_lump_future :: real
  new_lump_now :: real

record complex_result = award +
  net_annual_loss :: real
  table_name :: string
  auto_multiplier :: real
  found_in_table :: bool
  warning :: "string option"
  multiplier :: real
  yrs_to_retire :: int
  ls_discount_factor :: real
  pv_old_lump :: real
  pv_new_future :: real
  pv_new_total :: real
  lump_val :: real
  cap_val :: real
  total_raw :: real
  deduction :: real
  tax_element :: real
  comp_data :: "real list"

definition complex_method :: "complex_inputs \<Rightarrow> py_error + complex_result" where
  "complex_method i =
     (let net_annual_loss = old_pension i - (accrued_pension i + new_pension i);
          (df_ogden, table_name) = get_ogden_subset (gender i)
      in case lookup_logic df_ogden (claimant_age i) (ret_age i) of
           Inl e \<Rightarrow> Inl e
         | Inr found \<Rightarrow>
             (let auto_multiplier = fst found;
                  found_in_table = snd found;
                  warning =
                    (if found_in_table then None
                     else Some ''Age outside demo range (40-60). Enter manually.'');
                  multiplier = number_input auto_multiplier (multiplier_entry i);
                  yrs_to_retire = ret_age i - claimant_age i;
                  ls_discount_factor = power_int (1 + - 0.0025) (- yrs_to_retire);
                  pv_old_lump = old_lump i * ls_discount_factor;
                  pv_new_future = new_lump_future i * ls_discount_factor;
                  pv_new_total = pv_new_future + new_lump_now i;
                  lump_val = pv_old_lump - pv_new_total;
                  cap_val = net_annual_loss * multiplier;
                  total_raw = cap_val + lump_val;
                  deduction = total_raw * (real_of_int (withdrawal i) / 100);
                  net_total = total_raw - deduction;
                  taxable = max 0 (net_total - tax_free_remaining i)
              in case truediv taxable (1 - tax_rate i) of
                   Inl e \<Rightarrow> Inl e
                 | Inr q \<Rightarrow>
                     (let gross_total = min net_total (tax_free_remaining i) + q;
                          tax_element = gross_total - net_total
                      in Inr \<lparr>net_total = net_total, taxable = taxable,
                              gross_total = gross_total,
                              net_annual_loss = net_annual_loss,
                              table_name = table_name,
                              auto_multiplier = auto_multiplier,
                              found_in_table = found_in_table,
                              warning = warning,
                              multiplier = multiplier,
                              yrs_to_retire = yrs_to_retire,
                              ls_discount_factor = ls_discount_factor,
                              pv_old_lump = pv_old_lump,
                              pv_new_future = pv_new_future,
                              pv_new_total = pv_new_total,
                              lump_val = lump_val,
                              cap_val = cap_val,
                              total_raw = total_raw,
                              deduction = deduction,
                              tax_element = tax_element,
                              comp_data =
                                [cap_val * (1 - real_of_int (withdrawal i) / 100),
                                 lump_val * (1 - real_of_int (withdrawal i) / 100),
                                 tax_element]\<rparr>)))"

subsection \<open>Double-precision arithmetic\<close>

text \<open>
  A second embedding of the Complex method, for the properties that rounding decides.
  A finite double is modelled by the real number it denotes. \<open>fl x\<close> is the double
  nearest to \<open>x\<close>: 53 significant bits, ties to the even significand, gradual underflow
  at the exponent -1074. Every arithmetic operation of the script is the exact operation
  followed by \<open>fl\<close>, as IEEE 754 prescribes. Results beyond the largest double
  (infinities) and NaN are outside this model too. \<open>ilog2 x\<close> is the integer part of the
  binary logarithm of a positive \<open>x\<close>.
\<close>

definition round_half_even :: "real \<Rightarrow> int" where
  "round_half_even m =
     (let n = \<lfloor>m\<rfloor>; d = m - of_int n
      in if d < 1 / 2 then n else if 1 / 2 < d then n + 1 else if even n then n else n + 1)"

definition ilog2 :: "real \<Rightarrow> int" where
  "ilog2 x = (if 1 \<le> x then bitlen \<lfloor>x\<rfloor> - 1 else - bitlen (\<lceil>1 / x\<rceil> - 1))"

definition fl :: "real \<Rightarrow> real" where
  "fl x =
     (if x = 0 then 0
      else let e = max (ilog2 \<bar>x\<bar> - 52) (- 1074)
           in sgn x * of_int (round_half_even (\<bar>x\<bar> / power_int 2 e)) * power_int 2 e)"








subsection \<open>The script as the operator drives it\<close>

text \<open>
  The tax rate of a run is the option at the position picked in the select box; the
  other widget values are those of the record \<open>i\<close>.
\<close>

definition simple_script :: "nat \<Rightarrow> simple_inputs \<Rightarrow> py_error + simple_result" where
  "simple_script idx i =
     bind_err (selectbox tax_rate_options idx) (\<lambda>t. simple_method (i\<lparr>tax_rate := t\<rparr>))"

definition complex_script :: "nat \<Rightarrow> complex_inputs \<Rightarrow> py_error + complex_result" where
  "complex_script idx i =
     bind_err (selectbox tax_rate_options idx) (\<lambda>t. complex_method (i\<lparr>tax_rate := t\<rparr>))"

subsection \<open>Widget defaults\<close>

text \<open>The values the widgets hold before the operator changes anything.\<close>

definition default_simple_inputs :: simple_inputs where
  "default_simple_inputs =
     \<lparr>tax_rate = 0.40, tax_free_remaining = 0.0, gross_salary = 30000.0, contrib = 5.0,
      period = 1.0\<rparr>"

definition default_complex_inputs :: complex_inputs where
  "default_complex_inputs =
     \<lparr>tax_rate = 0.40, tax_free_remaining = 0.0, old_pension = 20000.0,
      accrued_pension = 10000.0, new_pension = 5000.0, gender = ''Male'', claimant_age = 50,
      ret_age = 65, multiplier_entry = None, withdrawal = 5, old_lump = 60000.0,
      new_lump_future = 20000.0, new_lump_now = 10000.0\<rparr>"

subsection \<open>Report generator\<close>

text \<open>
  \<open>generate_report(data, results, method)\<close> builds a Word document with python-docx.
  The two dictionaries map keys to numbers or strings; a missing key raises \<open>KeyError\<close>.
  The document is modelled by its blocks in order. Formatted numbers are kept as tagged
  values, not rendered: \<open>Str v\<close> is \<open>f"{v}"\<close>, \<open>Pounds v\<close> is the pound sign followed by
  \<open>f"{v:,.2f}"\<close>, \<open>Fixed2 v\<close> is \<open>f"{v:.2f}"\<close>, \<open>Fixed4 v\<close> is \<open>f"{v:.4f}"\<close> and
  \<open>Percent v\<close> is \<open>f"{int(v*100)}"\<close>. A run is its text and whether it is italic.
  Setting \<open>bold\<close> on a paragraph object sets a plain attribute and leaves the text as
  it is.
\<close>

datatype pyval = PInt int | PFloat real | PStr string

definition getitem :: "(string \<rightharpoonup> pyval) \<Rightarrow> string \<Rightarrow> py_error + pyval" where
  "getitem d k = (case d k of None \<Rightarrow> Inl KeyError | Some v \<Rightarrow> Inr v)"

datatype fragment =
  Lit string | Str pyval | Pounds pyval | Fixed2 pyval | Fixed4 pyval | Percent pyval

datatype block =
  Heading string nat
| Para "(fragment list \<times> bool) list"
| Table string "(fragment list \<times> fragment list) list"

text \<open>
  The paragraph object is python-docx's \<open>docx.text.paragraph.Paragraph\<close>, a class of the
  library, not of this repository. The model assumes these names for its public
  attributes, after the library's documentation; what matters below is that
  \<open>add_run\<close> is among them and \<open>add_runner\<close> is not.
\<close>

definition paragraph_attrs :: "string list" where
  "paragraph_attrs =
     [''add_run'', ''alignment'', ''clear'', ''contains_page_break'', ''hyperlinks'',
      ''insert_paragraph_before'', ''iter_inner_content'', ''paragraph_format'', ''part'',
      ''rendered_page_breaks'', ''runs'', ''style'', ''text'']"

text \<open>
  \<open>p.name(txt).italic = True\<close> on the paragraph \<open>p\<close> that follows the blocks \<open>before\<close>:
  the attribute lookup raises \<open>AttributeError\<close> for a name the class does not have;
  \<open>add_run\<close> appends a run, which the assignment makes italic;
  \<open>insert_paragraph_before\<close> inserts a paragraph, on which \<open>italic\<close> is a plain attribute
  without effect; the other attributes do not accept the call.
\<close>

definition call_paragraph_method ::
  "string \<Rightarrow> fragment list \<Rightarrow> block list \<times> (fragment list \<times> bool) list
     \<Rightarrow> py_error + (block list \<times> (fragment list \<times> bool) list)" where
  "call_paragraph_method name txt st =
     (if name \<notin> set paragraph_attrs then Inl AttributeError
      else if name = ''add_run'' then Inr (fst st, snd st @ [(txt, True)])
      else if name = ''insert_paragraph_before'' then
        Inr (fst st @ [Para [(txt, False)]], snd st)
      else Inl TypeError)"

definition inputs_rows ::
  "(string \<rightharpoonup> pyval) \<Rightarrow> string \<Rightarrow> py_error + (fragment list \<times> fragment list) list" where
  "inputs_rows data method =
     bind_err
       (if method = ''Complex'' then
          bind_err (getitem data ''age'') (\<lambda>age.
          bind_err (getitem data ''ret_age'') (\<lambda>ra.
          bind_err (getitem data ''years_to_retire'') (\<lambda>y.
          bind_err (getitem data ''multiplier'') (\<lambda>m.
          bind_err (getitem data ''withdrawal'') (\<lambda>w.
            Inr [([Lit ''Claimant Age''], [Str age]),
                 ([Lit ''Target Retirement Age''], [Str ra]),
                 ([Lit ''Years to Retirement''], [Str y, Lit '' years'']),
                 ([Lit ''Ogden Multiplier (Pension)''], [Fixed2 m]),
                 ([Lit ''Discount Rate (Lump Sum)''], [Lit ''-0.25% (Term Certain)'']),
                 ([Lit ''Withdrawal (Polkey)''], [Str w, Lit ''%''])])))))
        else
          bind_err (getitem data ''gross_salary'') (\<lambda>s.
            Inr [([Lit ''Salary''], [Pounds s])]))
       (\<lambda>rows.
          bind_err (getitem data ''tax_rate'') (\<lambda>t.
            Inr (rows @ [([Lit ''Tax Rate''], [Percent t, Lit ''%''])])))"

definition calculation_detail ::
  "(string \<rightharpoonup> pyval) \<Rightarrow> (string \<rightharpoonup> pyval) \<Rightarrow> string \<Rightarrow> py_error + block list" where
  "calculation_detail data results method =
     (if method = ''Complex'' then
        bind_err (getitem results ''net_annual_loss'') (\<lambda>nal.
        bind_err (getitem results ''capital_value_raw'') (\<lambda>cv.
        bind_err (getitem data ''old_lump'') (\<lambda>ol.
        bind_err (getitem data ''new_lump_future'') (\<lambda>nf.
        bind_err (getitem data ''new_lump_now'') (\<lambda>nn.
        bind_err (getitem results ''ls_discount_factor'') (\<lambda>df.
        bind_err (getitem results ''lump_sum_val'') (\<lambda>lv.
        bind_err (getitem results ''withdrawal_deduction'') (\<lambda>wd.
        bind_err (getitem results ''net_total'') (\<lambda>nt.
          Inr [Para [([Lit ''Net Annual Loss: '', Pounds nal], False)],
               Para [([Lit ''Capital Value (Annual): '', Pounds cv], False)],
               Heading ''Lump Sum Analysis (Accelerated Receipt)'' 2,
               Para [([Lit ''Old Job Lump Sum (Future): '', Pounds ol], False)],
               Para [([Lit ''New Job Lump Sum (Future): '', Pounds nf], False)],
               Para [([Lit ''Lump Sum Received Early: '', Pounds nn], False)],
               Para [([Lit ''Discount Factor (Term Certain): '', Fixed4 df], False)],
               Para [([Lit ''Net Lump Sum Loss (PV): '', Pounds lv], False)],
               Heading ''Final Totals'' 2,
               Para [([Lit ''Polkey Deduction: -'', Pounds wd], False)],
               Para [([Lit ''Total Net Loss: '', Pounds nt], False)]])))))))))
      else
        bind_err (getitem results ''net_total'') (\<lambda>nt.
          Inr [Para [([Lit ''Total Net Loss: '', Pounds nt], False)]]))"

text \<open>
  The report. \<open>today\<close> is the date string of \<open>date.today()\<close>. The source writes
  \<open>p.add_runner(...)\<close> where python-docx has \<open>add_run\<close>; the model looks the name up as
  the source has it. The result stands for the saved buffer.
\<close>

definition generate_report ::
  "string \<Rightarrow> (string \<rightharpoonup> pyval) \<Rightarrow> (string \<rightharpoonup> pyval) \<Rightarrow> string \<Rightarrow> py_error + block list" where
  "generate_report today data results method =
     (let head = [Heading ''Judicial Pension Loss Calculation'' 0,
                  Para [([Lit ''Date: '', Lit today], False)]];
          p = [([Lit (''Based on: Principles for Compensating Pension Loss (4th Ed, 2021)'' @
                      '' & Ogden Tables 8th Ed.'')], False)]
      in bind_err
           (call_paragraph_method ''add_runner''
              [Lit (CHR 0x0A # ''DISCLAIMER: Draft calculation for estimation only. '' @
                    ''Uses Term Certain discounting for lump sums.'')]
              (head, p)) (\<lambda>st.
         bind_err (inputs_rows data method) (\<lambda>rows.
         bind_err (calculation_detail data results method) (\<lambda>detail.
         bind_err (getitem results ''gross_total'') (\<lambda>g.
           Inr (fst st @
                [Para (snd st),
                 Heading ''1. Inputs & Assumptions'' 1,
                 Table ''Light Shading Accent 1'' (([], []) # rows),
                 Heading ''2. Calculation Detail'' 1] @
                detail @
                [Heading ''3. Grossed Up Award'' 1,
                 Para [([Lit ''Total Award Payable: '', Pounds g], False)]]))))))"

subsection \<open>Example inputs\<close>

text \<open>
  A Complex run whose lump sums and net total are negative, with the values it binds, and
  a Simple run below its tax-free allowance.
\<close>

abbreviation example_inputs :: complex_inputs where
  "example_inputs \<equiv>
     \<lparr>tax_rate = 0.20, tax_free_remaining = 0, old_pension = 20000,
      accrued_pension = 10000, new_pension = 5000, gender = ''Female'', claimant_age = 59,
      ret_age = 60, multiplier_entry = None, withdrawal = 10, old_lump = 39900,
      new_lump_future = 79800, new_lump_now = 10000\<rparr>"

abbreviation example_result :: complex_result where
  "example_result \<equiv>
     \<lparr>net_total = - 4950, taxable = 0, gross_total = - 4950, net_annual_loss = 5000,
      table_name = ''Table 29 (Females)'', auto_multiplier = 8.9, found_in_table = True,
      warning = None, multiplier = 8.9, yrs_to_retire = 1, ls_discount_factor = 400 / 399,
      pv_old_lump = 40000, pv_new_future = 80000, pv_new_total = 90000,
      lump_val = - 50000, cap_val = 44500, total_raw = - 5500, deduction = - 550,
      tax_element = 0, comp_data = [40050, - 45000, 0]\<rparr>"

abbreviation allowance_inputs :: simple_inputs where
  "allowance_inputs \<equiv>
     \<lparr>tax_rate = 0.40, tax_free_remaining = 2000, gross_salary = 30000, contrib = 5,
      period = 1\<rparr>"

abbreviation allowance_result :: simple_result where
  "allowance_result \<equiv>
     \<lparr>net_total = 1500, taxable = 0, gross_total = 1500, annual_loss = 1500\<rparr>"


text \<open>
  The cell of the table for a gender, a retirement-age column and an age, as
  \<open>get_ogden_subset\<close> computes it.
\<close>

abbreviation ogden_cell :: "string \<Rightarrow> int \<Rightarrow> int \<Rightarrow> real" where
  "ogden_cell g ra a \<equiv>
     max 0
       (if g = ''Male'' then
          (if ra = 60 then 24.50 - 0.95 * real_of_int (a - 40)
           else if ra = 65 then 22.00 - 0.6 * real_of_int (a - 40)
           else 19.50 - 0.5 * real_of_int (a - 40))
        else
          (if ra = 60 then 26.00 - 0.90 * real_of_int (a - 40)
           else if ra = 65 then 23.50 - 0.55 * real_of_int (a - 40)
           else 21.00 - 0.5 * real_of_int (a - 40)))"



section \<open>Shared lemmas\<close>

subsection \<open>Shared facts about the two methods\<close>

lemma simple_method_fields:
  "simple_method i = Inr r \<Longrightarrow>
     annual_loss r = gross_salary i * (contrib i / 100) \<and>
     net_total r = annual_loss r * period i \<and>
     taxable r = max 0 (net_total r - tax_free_remaining i) \<and>
     tax_rate i \<noteq> 1 \<and>
     gross_total r = min (net_total r) (tax_free_remaining i) + taxable r / (1 - tax_rate i)"
  by (auto simp: simple_method_def Let_def truediv_def split: if_splits)

lemma simple_method_total:
  "tax_rate i \<noteq> 1 \<Longrightarrow> \<exists>r. simple_method i = Inr r"
  by (simp add: simple_method_def Let_def truediv_def)

lemma complex_method_fields:
  assumes run: "complex_method i = Inr r"
  shows
    "net_annual_loss r = old_pension i - (accrued_pension i + new_pension i) \<and>
     table_name r = snd (get_ogden_subset (gender i)) \<and>
     lookup_logic (fst (get_ogden_subset (gender i))) (claimant_age i) (ret_age i) =
       Inr (auto_multiplier r, found_in_table r) \<and>
     warning r = (if found_in_table r then None
                  else Some ''Age outside demo range (40-60). Enter manually.'') \<and>
     multiplier r = number_input (auto_multiplier r) (multiplier_entry i) \<and>
     yrs_to_retire r = ret_age i - claimant_age i \<and>
     ls_discount_factor r = power_int (1 + - 0.0025) (- yrs_to_retire r) \<and>
     pv_old_lump r = old_lump i * ls_discount_factor r \<and>
     pv_new_future r = new_lump_future i * ls_discount_factor r \<and>
     pv_new_total r = pv_new_future r + new_lump_now i \<and>
     lump_val r = pv_old_lump r - pv_new_total r \<and>
     cap_val r = net_annual_loss r * multiplier r \<and>
     total_raw r = cap_val r + lump_val r \<and>
     deduction r = total_raw r * (real_of_int (withdrawal i) / 100) \<and>
     net_total r = total_raw r - deduction r \<and>
     taxable r = max 0 (net_total r - tax_free_remaining i) \<and>
     tax_rate i \<noteq> 1 \<and>
     gross_total r = min (net_total r) (tax_free_remaining i) + taxable r / (1 - tax_rate i) \<and>
     tax_element r = gross_total r - net_total r \<and>
     comp_data r = [cap_val r * (1 - real_of_int (withdrawal i) / 100),
                    lump_val r * (1 - real_of_int (withdrawal i) / 100), tax_element r]"
proof -
  obtain df tn where g: "get_ogden_subset (gender i) = (df, tn)"
    by (cases "get_ogden_subset (gender i)")
  note run1 = run [unfolded complex_method_def Let_def g prod.case]
  obtain found where l: "lookup_logic df (claimant_age i) (ret_age i) = Inr found"
    using run1 by (cases "lookup_logic df (claimant_age i) (ret_age i)") (simp_all only: sum.case sum.distinct)
  obtain am fnd where f: "found = (am, fnd)" by (cases found)
  note run2 = run1 [unfolded l sum.case f fst_conv snd_conv truediv_def]
  have t: "tax_rate i \<noteq> 1"
  proof
    assume "tax_rate i = 1"
    then have "(1 - tax_rate i = 0) = True" by simp
    from run2 [unfolded this if_True sum.case] show False by (simp only: sum.distinct)
  qed
  then have nz: "(1 - tax_rate i = 0) = False" by simp
  note run3 = run2 [unfolded nz if_False sum.case sum.inject]
  show ?thesis
    unfolding run3 [symmetric]
    by (simp only: complex_result.select_convs award.select_convs g l f fst_conv snd_conv t
          simp_thms)
qed

lemma lookup_logic_no_raise:
  "ra \<in> {60, 65, 68} \<Longrightarrow> \<exists>v b. lookup_logic df a ra = Inr (v, b)"
  by (auto simp: lookup_logic_def loc_first_def target_col_def
           split: sum.splits list.splits py_error.splits)

lemma lookup_logic_key_error:
  "ra \<notin> {60, 65, 68} \<Longrightarrow> lookup_logic df a ra = Inl KeyError"
  by (simp add: lookup_logic_def loc_first_def target_col_def)

lemma complex_method_total:
  assumes "ret_age i \<in> {60, 65, 68}" "tax_rate i \<noteq> 1"
  shows "\<exists>r. complex_method i = Inr r"
proof -
  obtain df tn where g: "get_ogden_subset (gender i) = (df, tn)"
    by (cases "get_ogden_subset (gender i)")
  obtain v b where l: "lookup_logic df (claimant_age i) (ret_age i) = Inr (v, b)"
    using lookup_logic_no_raise [OF assms(1)] by blast
  have nz: "(1 - tax_rate i = 0) = False" using assms(2) by simp
  show ?thesis
    unfolding complex_method_def Let_def g prod.case l sum.case truediv_def nz if_False
    by blast
qed

lemma powi_neg_gt_one:
  fixes a :: real
  assumes "0 < a" "a < 1" "0 < n"
  shows "1 < power_int a (- n)"
proof -
  have "1 < inverse a" using assms by (simp add: one_less_inverse)
  then have "1 < power_int (inverse a) n" using assms by (intro one_less_power_int)
  then show ?thesis by (simp add: power_int_minus power_int_inverse)
qed

lemma powi_pos_lt_one:
  fixes a :: real
  assumes "0 < a" "a < 1" "n < 0"
  shows "power_int a (- n) < 1"
proof -
  from assms obtain k where k: "- n = int (Suc k)"
    by (metis neg_0_less_iff_less zero_less_imp_eq_int gr0_implies_Suc)
  show ?thesis unfolding k power_int_of_nat
    using assms by (intro power_Suc_less_one) simp_all
qed

subsection \<open>Shared facts about the table\<close>

lemma filter_eq_upto:
  assumes "lo \<le> a" "a \<le> hi"
  shows "filter (\<lambda>x. x = a) [lo..hi] = [a]"
proof -
  have "[lo..hi] = [lo..a - 1] @ a # [a + 1..hi]"
    using assms by (rule upto_split3)
  then show ?thesis by (simp add: filter_empty_conv)
qed

lemma zip_age_col:
  "zip (map (max 0) [40..60]) (map h [40..60]) = map (\<lambda>x. (max 0 x, h x)) [40..(60::int)]"
  by (simp add: zip_map_map zip_same_conv_map del: upto.simps upto_rec_numeral)

lemma loc_rows:
  assumes "40 \<le> a" "a \<le> 60"
  shows "map snd (filter (\<lambda>(x, v). x = a)
           (zip (map (max 0) [40..60]) (map h [40..60]))) = [h a]"
proof -
  have "filter (\<lambda>x. max 0 x = a) [40..60] = filter (\<lambda>x. x = a) [40..60]"
    by (rule filter_cong) auto
  then have fl: "filter (\<lambda>x. max 0 x = a) [40..60] = [a]"
    using assms by (simp only: filter_eq_upto)
  show ?thesis
    unfolding zip_age_col by (simp add: filter_map comp_def fl del: upto.simps upto_rec_numeral)
qed

lemma loc_rows_miss:
  assumes "a < 40 \<or> 60 < a"
  shows "map snd (filter (\<lambda>(x, v). x = a)
           (zip (map (max 0) [40..60]) (map h [40..60]))) = []"
proof -
  have fl: "filter (\<lambda>x. max 0 x = a) [40..60] = []"
    using assms by (auto simp: filter_empty_conv)
  show ?thesis
    unfolding zip_age_col by (simp add: filter_map comp_def fl del: upto.simps upto_rec_numeral)
qed

lemma loc_first_hit:
  assumes "40 \<le> a" "a \<le> 60"
  shows "loc_first (fst (get_ogden_subset g)) a 60 =
           Inr (max 0 (if g = ''Male'' then 24.50 - 0.95 * real_of_int (a - 40)
                       else 26.00 - 0.90 * real_of_int (a - 40)))"
    and "loc_first (fst (get_ogden_subset g)) a 65 =
           Inr (max 0 (if g = ''Male'' then 22.00 - 0.6 * real_of_int (a - 40)
                       else 23.50 - 0.55 * real_of_int (a - 40)))"
    and "loc_first (fst (get_ogden_subset g)) a 68 =
           Inr (max 0 (if g = ''Male'' then 19.50 - 0.5 * real_of_int (a - 40)
                       else 21.00 - 0.5 * real_of_int (a - 40)))"
  by (simp_all add: loc_first_def target_col_def get_ogden_subset_def applymap_floor_def
        Let_def loc_rows [OF assms] del: upto.simps upto_rec_numeral)

lemma loc_first_miss:
  assumes "a < 40 \<or> 60 < a" "ra \<in> {60, 65, 68}"
  shows "loc_first (fst (get_ogden_subset g)) a ra = Inl IndexError"
  using assms(2)
  by (auto simp add: loc_first_def target_col_def get_ogden_subset_def applymap_floor_def
        Let_def loc_rows_miss [OF assms(1)] simp del: upto.simps upto_rec_numeral)

lemma nth_band:
  assumes "40 \<le> a" "a \<le> 60"
  shows "map h [40..60] ! nat (a - 40) = h a"
proof -
  have "nat (a - 40) < length [40..(60::int)]" using assms by simp
  then have "map h [40..60] ! nat (a - 40) = h ([40..60] ! nat (a - 40))"
    by (rule nth_map)
  also have "[40..60] ! nat (a - 40) = 40 + int (nat (a - 40))"
    using assms by (intro nth_upto) simp
  finally show ?thesis using assms by simp
qed

lemma ogden_cells:
  assumes "40 \<le> a" "a \<le> 60" "ra \<in> {60, 65, 68}"
  shows "\<exists>col. target_col (fst (get_ogden_subset g)) ra = Inr col \<and>
           age_at_trial (fst (get_ogden_subset g)) ! nat (a - 40) = a \<and>
           loc_first (fst (get_ogden_subset g)) a ra = Inr (col ! nat (a - 40))"
  using assms(3) loc_first_hit [OF assms(1,2), of g] assms(1,2)
  by (auto simp add: target_col_def get_ogden_subset_def applymap_floor_def
        Let_def nth_band [OF assms(1,2)] simp del: upto.simps upto_rec_numeral)

lemma max_floor_mono:
  fixes c s :: real
  assumes "0 \<le> s" "a \<le> b"
  shows "max 0 (c - s * real_of_int (b - 40)) \<le> max 0 (c - s * real_of_int (a - 40))"
proof -
  have "s * real_of_int (a - 40) \<le> s * real_of_int (b - 40)"
    using assms by (intro mult_left_mono) simp_all
  then show ?thesis by (simp add: max_def)
qed

lemma applymap_floor_nonneg:
  "\<forall>v \<in> set (retire_at_60 (applymap_floor df)) \<union> set (retire_at_65 (applymap_floor df)) \<union>
         set (retire_at_68 (applymap_floor df)). 0 \<le> v"
  by (auto simp: applymap_floor_def)

lemma ogden_all_nonneg:
  "\<forall>v \<in> set (retire_at_60 (fst (get_ogden_subset g))) \<union>
         set (retire_at_65 (fst (get_ogden_subset g))) \<union>
         set (retire_at_68 (fst (get_ogden_subset g))). 0 \<le> v"
  using applymap_floor_nonneg
  by (simp add: get_ogden_subset_def Let_def del: upto.simps upto_rec_numeral)

subsection \<open>Example runs\<close>

lemma snd_get_ogden_subset:
  "snd (get_ogden_subset g) =
     (if g = ''Male'' then ''Table 28 (Males)'' else ''Table 29 (Females)'')"
  by (simp add: get_ogden_subset_def Let_def del: upto.simps upto_rec_numeral)

lemma example_run: "complex_method example_inputs = Inr example_result"
  by (simp add: complex_method_def Let_def split_beta lookup_logic_def loc_first_hit
        snd_get_ogden_subset truediv_def number_input_def)

lemma allowance_run: "simple_method allowance_inputs = Inr allowance_result"
  by (simp add: simple_method_def Let_def truediv_def)

lemma default_simple_run:
  "simple_method default_simple_inputs =
     Inr \<lparr>net_total = 1500, taxable = 1500, gross_total = 2500, annual_loss = 1500\<rparr>"
  by (simp add: default_simple_inputs_def simple_method_def Let_def truediv_def)

lemma call_add_run:
  "call_paragraph_method ''add_run'' txt (before, p) = Inr (before, p @ [(txt, True)])"
  by (simp add: call_paragraph_method_def paragraph_attrs_def)


subsection \<open>Shared facts about the double-precision run\<close>




































section \<open>The claims\<close>




text \<open>
  C2. The years to retirement are the retirement age less the age at trial, whatever
  their sign, and the discount factor of a Complex run is 0.9975 to the power of minus
  that number: above 1 for a positive number of years, 1 for zero, below 1 for a
  negative number (nothing is clamped).
\<close>

theorem discount_factor_power:
  assumes "ret_age i \<in> {60, 65, 68}" "tax_rate i \<noteq> 1"
  shows "\<exists>r. complex_method i = Inr r \<and>
           yrs_to_retire r = ret_age i - claimant_age i \<and>
           ls_discount_factor r = power_int 0.9975 (- yrs_to_retire r) \<and>
           (0 < yrs_to_retire r \<longrightarrow> 1 < ls_discount_factor r) \<and>
           (yrs_to_retire r = 0 \<longrightarrow> ls_discount_factor r = 1) \<and>
           (yrs_to_retire r < 0 \<longrightarrow> ls_discount_factor r < 1)"
proof -
  from assms obtain r where run: "complex_method i = Inr r"
    using complex_method_total [of i] by auto
  note f = complex_method_fields [OF run]
  from f have y: "yrs_to_retire r = ret_age i - claimant_age i" by blast
  from f have "ls_discount_factor r = power_int (1 + - 0.0025) (- yrs_to_retire r)" by blast
  then have d: "ls_discount_factor r = power_int 0.9975 (- yrs_to_retire r)" by simp
  have "1 < ls_discount_factor r" if "0 < yrs_to_retire r"
    unfolding d using that by (intro powi_neg_gt_one) simp_all
  moreover have "ls_discount_factor r = 1" if "yrs_to_retire r = 0"
    unfolding d using that by simp
  moreover have "ls_discount_factor r < 1" if "yrs_to_retire r < 0"
    unfolding d using that by (intro powi_pos_lt_one) simp_all
  ultimately show ?thesis using run y d by blast
qed

theorem discount_factor_power_witness:
  "ret_age default_complex_inputs \<in> {60, 65, 68} \<and> tax_rate default_complex_inputs \<noteq> 1 \<and>
   (\<exists>r. complex_method default_complex_inputs = Inr r \<and> yrs_to_retire r = 15 \<and>
      ls_discount_factor r = power_int 0.9975 (- 15) \<and> 1 < ls_discount_factor r)"
proof -
  have h1: "ret_age default_complex_inputs \<in> {60, 65, 68}"
    by (simp add: default_complex_inputs_def)
  have h2: "tax_rate default_complex_inputs \<noteq> 1"
    by (simp add: default_complex_inputs_def)
  have y: "ret_age default_complex_inputs - claimant_age default_complex_inputs = 15"
    by (simp add: default_complex_inputs_def)
  from discount_factor_power [OF h1 h2] obtain r where
    r: "complex_method default_complex_inputs = Inr r" "yrs_to_retire r = 15"
       "ls_discount_factor r = power_int 0.9975 (- yrs_to_retire r)"
       "0 < yrs_to_retire r \<longrightarrow> 1 < ls_discount_factor r"
    unfolding y by blast
  from r(2,4) have "1 < ls_discount_factor r" by simp
  with r h1 h2 show ?thesis by auto
qed

text \<open>
  C3. A Complex run multiplies the old and the new future lump sum by the discount
  factor, adds the lump sum already received undiscounted, and carries the difference,
  whatever its sign, into the raw total.
\<close>

theorem lump_sum_present_values:
  assumes "ret_age i \<in> {60, 65, 68}" "tax_rate i \<noteq> 1"
  shows "\<exists>r. complex_method i = Inr r \<and>
           pv_old_lump r = old_lump i * ls_discount_factor r \<and>
           pv_new_total r = new_lump_future i * ls_discount_factor r + new_lump_now i \<and>
           lump_val r = pv_old_lump r - pv_new_total r \<and>
           total_raw r = cap_val r + lump_val r"
proof -
  from assms obtain r where run: "complex_method i = Inr r"
    using complex_method_total [of i] by auto
  note f = complex_method_fields [OF run]
  from f have a: "pv_new_future r = new_lump_future i * ls_discount_factor r" by blast
  from f have b: "pv_new_total r = pv_new_future r + new_lump_now i" by blast
  have "pv_new_total r = new_lump_future i * ls_discount_factor r + new_lump_now i"
    unfolding b a ..
  with f run show ?thesis by blast
qed

theorem lump_sum_present_values_witness:
  "ret_age example_inputs \<in> {60, 65, 68} \<and> tax_rate example_inputs \<noteq> 1 \<and>
   (\<exists>r. complex_method example_inputs = Inr r \<and> ls_discount_factor r = 400 / 399 \<and>
      pv_old_lump r = 40000 \<and> pv_new_total r = 90000 \<and> lump_val r = - 50000 \<and>
      cap_val r = 44500 \<and> total_raw r = - 5500)"
  using lump_sum_present_values [of example_inputs]
  unfolding example_run by simp




text \<open>
  C5. For either gender, ages 40 to 60 and each retirement-age column, the table cell is
  non-negative and does not increase with age; every cell of the three columns is
  non-negative, being floored at zero.
\<close>

theorem ogden_nonneg_nonincreasing:
  assumes "40 \<le> a" "a \<le> b" "b \<le> 60" "ra \<in> {60, 65, 68}"
  shows "(\<exists>va vb. loc_first (fst (get_ogden_subset g)) a ra = Inr va \<and>
            loc_first (fst (get_ogden_subset g)) b ra = Inr vb \<and>
            0 \<le> va \<and> 0 \<le> vb \<and> vb \<le> va) \<and>
         (\<forall>v \<in> set (retire_at_60 (fst (get_ogden_subset g))) \<union>
                set (retire_at_65 (fst (get_ogden_subset g))) \<union>
                set (retire_at_68 (fst (get_ogden_subset g))). 0 \<le> v)"
proof -
  have a: "40 \<le> a" "a \<le> 60" and b: "40 \<le> b" "b \<le> 60" using assms by simp_all
  note ha = loc_first_hit [OF a, of g] and hb = loc_first_hit [OF b, of g]
  consider "ra = 60" | "ra = 65" | "ra = 68" using assms(4) by blast
  then have "\<exists>va vb. loc_first (fst (get_ogden_subset g)) a ra = Inr va \<and>
            loc_first (fst (get_ogden_subset g)) b ra = Inr vb \<and>
            0 \<le> va \<and> 0 \<le> vb \<and> vb \<le> va"
  proof cases
    case 1
    show ?thesis unfolding 1 ha hb
      using max_floor_mono [where s="0.95" and c="24.50" and a=a and b=b]
        max_floor_mono [where s="0.90" and c="26.00" and a=a and b=b] assms(2)
      by simp
  next
    case 2
    show ?thesis unfolding 2 ha hb
      using max_floor_mono [where s="0.6" and c="22.00" and a=a and b=b]
        max_floor_mono [where s="0.55" and c="23.50" and a=a and b=b] assms(2)
      by simp
  next
    case 3
    show ?thesis unfolding 3 ha hb
      using max_floor_mono [where s="0.5" and c="19.50" and a=a and b=b]
        max_floor_mono [where s="0.5" and c="21.00" and a=a and b=b] assms(2)
      by simp
  qed
  with ogden_all_nonneg [of g] show ?thesis by blast
qed

theorem ogden_nonneg_nonincreasing_witness:
  "loc_first (fst (get_ogden_subset ''Male'')) 45 65 = Inr 19 \<and>
   loc_first (fst (get_ogden_subset ''Male'')) 50 65 = Inr 16 \<and>
   (\<exists>va vb. loc_first (fst (get_ogden_subset ''Male'')) 45 65 = Inr va \<and>
            loc_first (fst (get_ogden_subset ''Male'')) 50 65 = Inr vb \<and>
            0 \<le> va \<and> 0 \<le> vb \<and> vb \<le> va)"
  using ogden_nonneg_nonincreasing [of 45 50 65 "''Male''"]
  by (simp add: loc_first_hit)

text \<open>
  C6. A Simple run with a tax rate other than 1 completes with the annual loss equal to
  the salary times the contribution rate over 100 and the net total equal to the annual
  loss times the period; with salary 30000, rate 5, period 1, tax rate 0.40 and no
  allowance it gives net total 1500, taxable portion 1500 and gross total 2500.
\<close>

theorem simple_method_net_total:
  "(tax_rate i \<noteq> 1 \<longrightarrow>
      (\<exists>r. simple_method i = Inr r \<and>
         annual_loss r = gross_salary i * (contrib i / 100) \<and>
         net_total r = annual_loss r * period i)) \<and>
   simple_method \<lparr>tax_rate = 0.40, tax_free_remaining = 0, gross_salary = 30000,
                   contrib = 5, period = 1\<rparr> =
     Inr \<lparr>net_total = 1500, taxable = 1500, gross_total = 2500, annual_loss = 1500\<rparr>"
proof (intro conjI impI)
  assume "tax_rate i \<noteq> 1"
  then obtain r where r: "simple_method i = Inr r"
    using simple_method_total [of i] by blast
  from simple_method_fields [OF r] r
  show "\<exists>r. simple_method i = Inr r \<and>
         annual_loss r = gross_salary i * (contrib i / 100) \<and>
         net_total r = annual_loss r * period i" by blast
next
  show "simple_method \<lparr>tax_rate = 0.40, tax_free_remaining = 0, gross_salary = 30000,
                   contrib = 5, period = 1\<rparr> =
     Inr \<lparr>net_total = 1500, taxable = 1500, gross_total = 2500, annual_loss = 1500\<rparr>"
    by (simp add: simple_method_def Let_def truediv_def)
qed

theorem simple_method_net_total_witness:
  "tax_rate allowance_inputs \<noteq> 1 \<and>
   (\<exists>r. simple_method allowance_inputs = Inr r \<and> annual_loss r = 1500 \<and>
      net_total r = 1500 \<and> taxable r = 0 \<and> gross_total r = 1500)"
  using simple_method_net_total [of allowance_inputs]
  unfolding allowance_run by simp

text \<open>
  C7. For a retirement age of 60, 65 or 68: with an age outside 40 to 60 the lookup
  raises nothing and gives multiplier 0 with the flag "not found", and the run then
  warns the operator and uses the multiplier entered by hand (0 if none is entered);
  with an age inside the band the lookup gives, with the flag "found", the cell of the
  column of that retirement age in the row of exactly that age, which is the value the
  generator computed for that gender, column and age, and the run offers it as the
  default multiplier.
\<close>

theorem lookup_exact_match_or_not_found:
  assumes "ret_age i \<in> {60, 65, 68}"
  shows
    "(claimant_age i < 40 \<or> 60 < claimant_age i \<longrightarrow>
        lookup_logic (fst (get_ogden_subset (gender i))) (claimant_age i) (ret_age i) =
          Inr (0, False) \<and>
        (tax_rate i \<noteq> 1 \<longrightarrow>
           (\<exists>r. complex_method i = Inr r \<and> \<not> found_in_table r \<and> auto_multiplier r = 0 \<and>
              warning r = Some ''Age outside demo range (40-60). Enter manually.'' \<and>
              multiplier r = (case multiplier_entry i of None \<Rightarrow> 0 | Some m \<Rightarrow> m)))) \<and>
     (40 \<le> claimant_age i \<and> claimant_age i \<le> 60 \<longrightarrow>
        lookup_logic (fst (get_ogden_subset (gender i))) (claimant_age i) (ret_age i) =
          Inr (ogden_cell (gender i) (ret_age i) (claimant_age i), True) \<and>
        age_at_trial (fst (get_ogden_subset (gender i))) ! nat (claimant_age i - 40) =
          claimant_age i \<and>
        ogden_cell (gender i) (ret_age i) (claimant_age i) =
          (if ret_age i = 60 then retire_at_60 (fst (get_ogden_subset (gender i)))
           else if ret_age i = 65 then retire_at_65 (fst (get_ogden_subset (gender i)))
           else retire_at_68 (fst (get_ogden_subset (gender i)))) !
            nat (claimant_age i - 40) \<and>
        (tax_rate i \<noteq> 1 \<longrightarrow>
           (\<exists>r. complex_method i = Inr r \<and> found_in_table r \<and>
              auto_multiplier r = ogden_cell (gender i) (ret_age i) (claimant_age i) \<and>
              warning r = None \<and>
              multiplier r =
                (case multiplier_entry i of
                   None \<Rightarrow> ogden_cell (gender i) (ret_age i) (claimant_age i)
                 | Some m \<Rightarrow> m))))"
proof (intro conjI impI)
  assume out: "claimant_age i < 40 \<or> 60 < claimant_age i"
  show l: "lookup_logic (fst (get_ogden_subset (gender i))) (claimant_age i) (ret_age i) =
      Inr (0, False)"
    by (simp add: lookup_logic_def loc_first_miss [OF out assms])
  assume "tax_rate i \<noteq> 1"
  with assms obtain r where run: "complex_method i = Inr r"
    using complex_method_total [of i] by auto
  note f = complex_method_fields [OF run]
  from f l have p: "auto_multiplier r = 0" "\<not> found_in_table r" by simp_all
  from f have "warning r = (if found_in_table r then None
      else Some ''Age outside demo range (40-60). Enter manually.'')" by blast
  with p have w: "warning r = Some ''Age outside demo range (40-60). Enter manually.''"
    by simp
  from f have "multiplier r = number_input (auto_multiplier r) (multiplier_entry i)" by blast
  with p have "multiplier r = (case multiplier_entry i of None \<Rightarrow> 0 | Some m \<Rightarrow> m)"
    by (simp add: number_input_def)
  with run p w show "\<exists>r. complex_method i = Inr r \<and> \<not> found_in_table r \<and> auto_multiplier r = 0 \<and>
      warning r = Some ''Age outside demo range (40-60). Enter manually.'' \<and>
      multiplier r = (case multiplier_entry i of None \<Rightarrow> 0 | Some m \<Rightarrow> m)" by blast
next
  assume "40 \<le> claimant_age i \<and> claimant_age i \<le> 60"
  then have b: "40 \<le> claimant_age i" "claimant_age i \<le> 60" by simp_all
  note hit = loc_first_hit [OF b, of "gender i"]
  show l: "lookup_logic (fst (get_ogden_subset (gender i))) (claimant_age i) (ret_age i) =
      Inr (ogden_cell (gender i) (ret_age i) (claimant_age i), True)"
    using assms hit by (auto simp: lookup_logic_def)
  show "age_at_trial (fst (get_ogden_subset (gender i))) ! nat (claimant_age i - 40) =
      claimant_age i"
    using b by (simp add: get_ogden_subset_def applymap_floor_def Let_def nth_band [OF b]
        del: upto.simps upto_rec_numeral)
  show "ogden_cell (gender i) (ret_age i) (claimant_age i) =
      (if ret_age i = 60 then retire_at_60 (fst (get_ogden_subset (gender i)))
       else if ret_age i = 65 then retire_at_65 (fst (get_ogden_subset (gender i)))
       else retire_at_68 (fst (get_ogden_subset (gender i)))) !
        nat (claimant_age i - 40)"
    using assms
    by (auto simp add: get_ogden_subset_def applymap_floor_def Let_def nth_band [OF b]
        simp del: upto.simps upto_rec_numeral)
  assume "tax_rate i \<noteq> 1"
  with assms obtain r where run: "complex_method i = Inr r"
    using complex_method_total [of i] by auto
  note f = complex_method_fields [OF run]
  from f l have p: "auto_multiplier r = ogden_cell (gender i) (ret_age i) (claimant_age i)"
    "found_in_table r" by simp_all
  from f have "warning r = (if found_in_table r then None
      else Some ''Age outside demo range (40-60). Enter manually.'')" by blast
  with p have w: "warning r = None" by simp
  from f have "multiplier r = number_input (auto_multiplier r) (multiplier_entry i)" by blast
  with p have "multiplier r =
      (case multiplier_entry i of
         None \<Rightarrow> ogden_cell (gender i) (ret_age i) (claimant_age i) | Some m \<Rightarrow> m)"
    by (simp add: number_input_def)
  with run p w show "\<exists>r. complex_method i = Inr r \<and> found_in_table r \<and>
      auto_multiplier r = ogden_cell (gender i) (ret_age i) (claimant_age i) \<and>
      warning r = None \<and>
      multiplier r =
        (case multiplier_entry i of
           None \<Rightarrow> ogden_cell (gender i) (ret_age i) (claimant_age i) | Some m \<Rightarrow> m)"
    by blast
qed

theorem lookup_exact_match_or_not_found_witness:
  "lookup_logic (fst (get_ogden_subset ''Male'')) 35 65 = Inr (0, False) \<and>
   (\<exists>r. complex_method
           (default_complex_inputs\<lparr>claimant_age := 35, multiplier_entry := Some 22\<rparr>) =
         Inr r \<and>
      \<not> found_in_table r \<and> auto_multiplier r = 0 \<and>
      warning r = Some ''Age outside demo range (40-60). Enter manually.'' \<and>
      multiplier r = 22) \<and>
   lookup_logic (fst (get_ogden_subset ''Male'')) 50 60 = Inr (15, True) \<and>
   retire_at_60 (fst (get_ogden_subset ''Male'')) ! 10 = 15 \<and>
   lookup_logic (fst (get_ogden_subset ''Male'')) 50 65 = Inr (16, True) \<and>
   retire_at_65 (fst (get_ogden_subset ''Male'')) ! 10 = 16 \<and>
   lookup_logic (fst (get_ogden_subset ''Male'')) 50 68 = Inr (14.5, True) \<and>
   retire_at_68 (fst (get_ogden_subset ''Male'')) ! 10 = 14.5 \<and>
   age_at_trial (fst (get_ogden_subset ''Male'')) ! 10 = 50 \<and>
   (\<exists>r. complex_method default_complex_inputs = Inr r \<and> found_in_table r \<and>
      auto_multiplier r = 16 \<and> warning r = None \<and> multiplier r = 16)"
proof -
  let ?o = "default_complex_inputs\<lparr>claimant_age := 35, multiplier_entry := Some 22\<rparr>"
  have h: "ret_age ?o \<in> {60, 65, 68}" "ret_age default_complex_inputs \<in> {60, 65, 68}"
    "ret_age (default_complex_inputs\<lparr>ret_age := 60\<rparr>) \<in> {60, 65, 68}"
    "ret_age (default_complex_inputs\<lparr>ret_age := 68\<rparr>) \<in> {60, 65, 68}"
    by (simp_all add: default_complex_inputs_def)
  have out: "lookup_logic (fst (get_ogden_subset ''Male'')) 35 65 = Inr (0, False) \<and>
      (\<exists>r. complex_method ?o = Inr r \<and> \<not> found_in_table r \<and> auto_multiplier r = 0 \<and>
         warning r = Some ''Age outside demo range (40-60). Enter manually.'' \<and>
         multiplier r = 22)"
    using lookup_exact_match_or_not_found [OF h(1)]
    by (simp add: default_complex_inputs_def)
  have c65: "lookup_logic (fst (get_ogden_subset ''Male'')) 50 65 = Inr (16, True) \<and>
      retire_at_65 (fst (get_ogden_subset ''Male'')) ! 10 = 16 \<and>
      age_at_trial (fst (get_ogden_subset ''Male'')) ! 10 = 50 \<and>
      (\<exists>r. complex_method default_complex_inputs = Inr r \<and> found_in_table r \<and>
         auto_multiplier r = 16 \<and> warning r = None \<and> multiplier r = 16)"
    using lookup_exact_match_or_not_found [OF h(2)]
    by (simp add: default_complex_inputs_def)
  have c60: "lookup_logic (fst (get_ogden_subset ''Male'')) 50 60 = Inr (15, True) \<and>
      retire_at_60 (fst (get_ogden_subset ''Male'')) ! 10 = 15"
    using lookup_exact_match_or_not_found [OF h(3)]
    by (simp add: default_complex_inputs_def)
  have c68: "lookup_logic (fst (get_ogden_subset ''Male'')) 50 68 = Inr (14.5, True) \<and>
      retire_at_68 (fst (get_ogden_subset ''Male'')) ! 10 = 14.5"
    using lookup_exact_match_or_not_found [OF h(4)]
    by (simp add: default_complex_inputs_def)
  from out c60 c65 c68 show ?thesis by blast
qed

text \<open>
  C8. The script has no validation of the tax rate. The rate is the option picked in a
  select box whose options are 0.20, 0.40 and 0.45: each is below 1, every run the
  operator can start divides by a non-zero 1 - tax_rate and never ends in
  \<open>ZeroDivisionError\<close>. Given tax rate 1, the engine itself reaches the division, which
  raises \<open>ZeroDivisionError\<close>, and no award is produced.
\<close>

theorem select_box_guards_tax_rate:
  "(idx < length tax_rate_options \<longrightarrow>
      (\<exists>t. selectbox tax_rate_options idx = Inr t \<and> t \<in> {0.20, 0.40, 0.45} \<and> t < 1 \<and>
         (\<exists>r. simple_script idx s = Inr r \<and> simple_method (s\<lparr>tax_rate := t\<rparr>) = Inr r) \<and>
         (ret_age c \<in> {60, 65, 68} \<longrightarrow>
            (\<exists>r. complex_script idx c = Inr r \<and>
               complex_method (c\<lparr>tax_rate := t\<rparr>) = Inr r)))) \<and>
   simple_script idx s \<noteq> Inl ZeroDivisionError \<and>
   complex_script idx c \<noteq> Inl ZeroDivisionError \<and>
   simple_method (s\<lparr>tax_rate := 1\<rparr>) = Inl ZeroDivisionError \<and>
   (ret_age c \<in> {60, 65, 68} \<longrightarrow>
      complex_method (c\<lparr>tax_rate := 1\<rparr>) = Inl ZeroDivisionError)"
proof -
  have opts: "t \<in> {0.20, 0.40, 0.45}" if "selectbox tax_rate_options idx = Inr t" for t
  proof -
    from that have "idx < 3 \<and> t = [0.20, 0.40, 0.45] ! idx"
      by (auto simp: selectbox_def tax_rate_options_def split: if_splits)
    then show ?thesis by (auto simp: less_Suc_eq numeral_3_eq_3)
  qed
  have lt: "t < 1" if "selectbox tax_rate_options idx = Inr t" for t
    using opts [OF that] by auto
  have simple_ok: "\<exists>r. simple_method (s\<lparr>tax_rate := t\<rparr>) = Inr r" if "t < 1" for t
    using that simple_method_total [of "s\<lparr>tax_rate := t\<rparr>"] by simp
  have complex_ok: "\<exists>r. complex_method (c\<lparr>tax_rate := t\<rparr>) = Inr r"
    if "t < 1" "ret_age c \<in> {60, 65, 68}" for t
    using that complex_method_total [of "c\<lparr>tax_rate := t\<rparr>"] by simp
  have a: "idx < length tax_rate_options \<longrightarrow>
      (\<exists>t. selectbox tax_rate_options idx = Inr t \<and> t \<in> {0.20, 0.40, 0.45} \<and> t < 1 \<and>
         (\<exists>r. simple_script idx s = Inr r \<and> simple_method (s\<lparr>tax_rate := t\<rparr>) = Inr r) \<and>
         (ret_age c \<in> {60, 65, 68} \<longrightarrow>
            (\<exists>r. complex_script idx c = Inr r \<and>
               complex_method (c\<lparr>tax_rate := t\<rparr>) = Inr r)))"
  proof
    assume "idx < length tax_rate_options"
    then have sel: "selectbox tax_rate_options idx = Inr (tax_rate_options ! idx)"
      by (simp add: selectbox_def)
    let ?t = "tax_rate_options ! idx"
    note o = opts [OF sel] and l = lt [OF sel]
    from simple_ok [OF l] have s1:
      "\<exists>r. simple_script idx s = Inr r \<and> simple_method (s\<lparr>tax_rate := ?t\<rparr>) = Inr r"
      by (simp add: simple_script_def bind_err_def sel)
    have c1: "ret_age c \<in> {60, 65, 68} \<longrightarrow>
        (\<exists>r. complex_script idx c = Inr r \<and> complex_method (c\<lparr>tax_rate := ?t\<rparr>) = Inr r)"
      using complex_ok [OF l] by (simp add: complex_script_def bind_err_def sel)
    from sel o l s1 c1 show "\<exists>t. selectbox tax_rate_options idx = Inr t \<and>
        t \<in> {0.20, 0.40, 0.45} \<and> t < 1 \<and>
        (\<exists>r. simple_script idx s = Inr r \<and> simple_method (s\<lparr>tax_rate := t\<rparr>) = Inr r) \<and>
        (ret_age c \<in> {60, 65, 68} \<longrightarrow>
           (\<exists>r. complex_script idx c = Inr r \<and>
              complex_method (c\<lparr>tax_rate := t\<rparr>) = Inr r))"
      by blast
  qed
  have b: "simple_script idx s \<noteq> Inl ZeroDivisionError"
  proof (cases "selectbox tax_rate_options idx")
    case (Inl e)
    then have "e = IndexError" by (simp add: selectbox_def split: if_splits)
    with Inl show ?thesis by (simp add: simple_script_def bind_err_def)
  next
    case (Inr t)
    from simple_ok [OF lt [OF Inr]] Inr show ?thesis
      by (auto simp: simple_script_def bind_err_def)
  qed
  have d: "complex_script idx c \<noteq> Inl ZeroDivisionError"
  proof (cases "selectbox tax_rate_options idx")
    case (Inl e)
    then have "e = IndexError" by (simp add: selectbox_def split: if_splits)
    with Inl show ?thesis by (simp add: complex_script_def bind_err_def)
  next
    case (Inr t)
    have "complex_method (c\<lparr>tax_rate := t\<rparr>) \<noteq> Inl ZeroDivisionError"
    proof (cases "ret_age c \<in> {60, 65, 68}")
      case True
      from complex_ok [OF lt [OF Inr] True] show ?thesis by auto
    next
      case False
      then have "lookup_logic (fst (get_ogden_subset (gender c))) (claimant_age c) (ret_age c)
          = Inl KeyError"
        by (rule lookup_logic_key_error)
      then show ?thesis
        by (simp add: complex_method_def Let_def split_beta)
    qed
    with Inr show ?thesis by (simp add: complex_script_def bind_err_def)
  qed
  have e: "simple_method (s\<lparr>tax_rate := 1\<rparr>) = Inl ZeroDivisionError"
    by (simp add: simple_method_def Let_def truediv_def)
  have g: "ret_age c \<in> {60, 65, 68} \<longrightarrow>
      complex_method (c\<lparr>tax_rate := 1\<rparr>) = Inl ZeroDivisionError"
  proof
    assume ra: "ret_age c \<in> {60, 65, 68}"
    obtain df tn where gg: "get_ogden_subset (gender c) = (df, tn)"
      by (cases "get_ogden_subset (gender c)")
    obtain v b where l: "lookup_logic df (claimant_age c) (ret_age c) = Inr (v, b)"
      using lookup_logic_no_raise [OF ra] by blast
    show "complex_method (c\<lparr>tax_rate := 1\<rparr>) = Inl ZeroDivisionError"
      by (simp add: complex_method_def Let_def gg l truediv_def)
  qed
  from a b d e g show ?thesis by blast
qed

theorem select_box_guards_tax_rate_witness:
  "(1::nat) < length tax_rate_options \<and> selectbox tax_rate_options 1 = Inr 0.40 \<and>
   (0.40::real) < 1 \<and>
   simple_script 1 allowance_inputs = Inr allowance_result \<and>
   ret_age example_inputs \<in> {60, 65, 68} \<and>
   (\<exists>r. complex_script 1 example_inputs = Inr r) \<and>
   simple_method (allowance_inputs\<lparr>tax_rate := 1\<rparr>) = Inl ZeroDivisionError \<and>
   complex_method (example_inputs\<lparr>tax_rate := 1\<rparr>) = Inl ZeroDivisionError"
proof -
  note w = select_box_guards_tax_rate [of 1 allowance_inputs example_inputs]
  have i: "(1::nat) < length tax_rate_options" by (simp add: tax_rate_options_def)
  have s: "selectbox tax_rate_options 1 = Inr 0.40"
    by (simp add: selectbox_def tax_rate_options_def)
  have ra: "ret_age example_inputs \<in> {60, 65, 68}" by simp
  from w i s ra have c: "\<exists>r. complex_script 1 example_inputs = Inr r" by auto
  have u: "allowance_inputs\<lparr>tax_rate := 0.40\<rparr> = allowance_inputs" by simp
  have ss: "simple_script 1 allowance_inputs = Inr allowance_result"
    unfolding simple_script_def bind_err_def s sum.case u by (rule allowance_run)
  from w ra have z: "simple_method (allowance_inputs\<lparr>tax_rate := 1\<rparr>) = Inl ZeroDivisionError \<and>
      complex_method (example_inputs\<lparr>tax_rate := 1\<rparr>) = Inl ZeroDivisionError"
    by blast
  from i s c ss ra z show ?thesis by simp
qed

theorem tax_rate_one_reaches_division:
  "tax_rate (default_simple_inputs\<lparr>tax_rate := 1\<rparr>) = 1 \<and>
   truediv (max 0 (30000 * (5 / 100) * 1 - 0))
     (1 - tax_rate (default_simple_inputs\<lparr>tax_rate := 1\<rparr>)) = Inl ZeroDivisionError \<and>
   simple_method (default_simple_inputs\<lparr>tax_rate := 1\<rparr>) = Inl ZeroDivisionError \<and>
   complex_method (example_inputs\<lparr>tax_rate := 1\<rparr>) = Inl ZeroDivisionError"
  by (simp add: default_simple_inputs_def simple_method_def complex_method_def Let_def
        split_beta lookup_logic_def loc_first_hit truediv_def)

text \<open>
  C9. The report generator looks up \<open>add_runner\<close> on the paragraph object, which
  python-docx's paragraph class does not have: every call of \<open>generate_report\<close>, for
  any payload and either method, raises \<open>AttributeError\<close> and returns no document.
\<close>

theorem generate_report_raises:
  "generate_report today data results method = Inl AttributeError"
  by (simp add: generate_report_def call_paragraph_method_def paragraph_attrs_def
        bind_err_def Let_def)

text \<open>
  C10. In a completed run of either method whose net total does not exceed the tax-free
  allowance, the taxable portion is 0 and the gross total is the net total; in the
  Complex method the tax element is 0. A negative net total is left as it is.
\<close>

theorem gross_up_identity_below_allowance:
  "(simple_method s = Inr r \<and> net_total r \<le> tax_free_remaining s \<longrightarrow>
      taxable r = 0 \<and> gross_total r = net_total r) \<and>
   (complex_method c = Inr r' \<and> net_total r' \<le> tax_free_remaining c \<longrightarrow>
      taxable r' = 0 \<and> gross_total r' = net_total r' \<and> tax_element r' = 0)"
proof (intro conjI impI)
  assume a: "simple_method s = Inr r \<and> net_total r \<le> tax_free_remaining s"
  note f = simple_method_fields [OF conjunct1 [OF a]]
  from f have "taxable r = max 0 (net_total r - tax_free_remaining s)" by blast
  with a show t: "taxable r = 0" by simp
  from f have "gross_total r =
      min (net_total r) (tax_free_remaining s) + taxable r / (1 - tax_rate s)" by blast
  with a t show "gross_total r = net_total r" by simp
next
  assume a: "complex_method c = Inr r' \<and> net_total r' \<le> tax_free_remaining c"
  note f = complex_method_fields [OF conjunct1 [OF a]]
  from f have "taxable r' = max 0 (net_total r' - tax_free_remaining c)" by blast
  with a show t: "taxable r' = 0" by simp
  from f have "gross_total r' =
      min (net_total r') (tax_free_remaining c) + taxable r' / (1 - tax_rate c)" by blast
  with a t show g: "gross_total r' = net_total r'" by simp
  from f have "tax_element r' = gross_total r' - net_total r'" by blast
  with g show "tax_element r' = 0" by simp
qed

theorem gross_up_identity_below_allowance_witness:
  "simple_method allowance_inputs = Inr allowance_result \<and>
   net_total allowance_result \<le> tax_free_remaining allowance_inputs \<and>
   taxable allowance_result = 0 \<and> gross_total allowance_result = net_total allowance_result \<and>
   complex_method example_inputs = Inr example_result \<and>
   net_total example_result \<le> tax_free_remaining example_inputs \<and>
   net_total example_result < 0 \<and>
   taxable example_result = 0 \<and> gross_total example_result = net_total example_result \<and>
   tax_element example_result = 0"
  using gross_up_identity_below_allowance
    [of allowance_inputs allowance_result example_inputs example_result]
  unfolding allowance_run example_run by simp

end
